theory Spec2Isabelle
  imports Main
begin

section \<open>Strings\<close>

text \<open>
  The program is the script \<^verbatim>\<open>kw.py\<close>: it reads \<^verbatim>\<open>sys.argv[1]\<close>, walks over its
  characters and prints one bracket group per character. A Python \<^verbatim>\<open>str\<close> is a
  sequence of Unicode code points; a code point is modelled as a natural number and a
  \<^verbatim>\<open>str\<close> as the list of its code points. Iterating over a \<^verbatim>\<open>str\<close> yields its code
  points one by one, each as a \<^verbatim>\<open>str\<close> of length one.
\<close>

type_synonym codepoint = nat
type_synonym pystr = "codepoint list"

text \<open>ASCII literals, to write test strings readably: \<open>ascii ''ab'' = [97, 98]\<close>.\<close>

definition ascii :: "string \<Rightarrow> pystr" where
  "ascii s = map of_char s"

section \<open>The case mappings of \<^verbatim>\<open>str.lower\<close> and \<^verbatim>\<open>str.upper\<close>\<close>

text \<open>
  \<^verbatim>\<open>ch.lower()\<close> and \<^verbatim>\<open>ch.upper()\<close> are methods of the interpreter, not of the script.
  They apply the full Unicode case mapping to every code point
  (\<^verbatim>\<open>_PyUnicode_ToLowerFull\<close>, \<^verbatim>\<open>_PyUnicode_ToUpperFull\<close> in CPython), so the result of
  mapping one code point is a \<^verbatim>\<open>str\<close> of one, two or three code points. The tables below
  are the mappings of CPython 3.11 (Unicode 14.0.0), every code point that is not mapped to
  itself being listed.

  A \<open>case_range\<close> \<open>(lo, hi, st, tg)\<close> stands for the code points \<open>lo, lo + st, ...\<close> up
  to \<open>hi\<close>; the code point \<open>c\<close> of the range is mapped to \<open>tg + (c - lo)\<close>. The
  \<open>special\<close> tables list the code points whose mapping has more than one code point.
\<close>

type_synonym case_range = "nat \<times> nat \<times> nat \<times> nat"

fun in_range :: "codepoint \<Rightarrow> case_range \<Rightarrow> bool" where
  "in_range c (lo, hi, st, tg) = (lo \<le> c \<and> c \<le> hi \<and> (c - lo) mod st = 0)"

fun range_image :: "codepoint \<Rightarrow> case_range \<Rightarrow> codepoint" where
  "range_image c (lo, hi, st, tg) = tg + (c - lo)"

fun range_lookup :: "case_range list \<Rightarrow> codepoint \<Rightarrow> codepoint option" where
  "range_lookup [] c = None"
| "range_lookup (r # rs) c =
     (if in_range c r then Some (range_image c r) else range_lookup rs c)"

definition lower_ranges :: "case_range list" where
  "lower_ranges = [
  (65, 90, 1, 97), (192, 214, 1, 224), (216, 222, 1, 248), (256, 302, 2, 257),
  (306, 310, 2, 307), (313, 327, 2, 314), (330, 374, 2, 331), (376, 376, 1, 255),
  (377, 381, 2, 378), (385, 385, 1, 595), (386, 388, 2, 387), (390, 390, 1, 596),
  (391, 391, 1, 392), (393, 394, 1, 598), (395, 395, 1, 396), (398, 398, 1, 477),
  (399, 399, 1, 601), (400, 400, 1, 603), (401, 401, 1, 402), (403, 403, 1, 608),
  (404, 404, 1, 611), (406, 406, 1, 617), (407, 407, 1, 616), (408, 408, 1, 409),
  (412, 412, 1, 623), (413, 413, 1, 626), (415, 415, 1, 629), (416, 420, 2, 417),
  (422, 422, 1, 640), (423, 423, 1, 424), (425, 425, 1, 643), (428, 428, 1, 429),
  (430, 430, 1, 648), (431, 431, 1, 432), (433, 434, 1, 650), (435, 437, 2, 436),
  (439, 439, 1, 658), (440, 440, 1, 441), (444, 444, 1, 445), (452, 452, 1, 454),
  (453, 453, 1, 454), (455, 455, 1, 457), (456, 456, 1, 457), (458, 458, 1, 460),
  (459, 475, 2, 460), (478, 494, 2, 479), (497, 497, 1, 499), (498, 500, 2, 499),
  (502, 502, 1, 405), (503, 503, 1, 447), (504, 542, 2, 505), (544, 544, 1, 414),
  (546, 562, 2, 547), (570, 570, 1, 11365), (571, 571, 1, 572), (573, 573, 1, 410),
  (574, 574, 1, 11366), (577, 577, 1, 578), (579, 579, 1, 384), (580, 580, 1, 649),
  (581, 581, 1, 652), (582, 590, 2, 583), (880, 882, 2, 881), (886, 886, 1, 887),
  (895, 895, 1, 1011), (902, 902, 1, 940), (904, 906, 1, 941), (908, 908, 1, 972),
  (910, 911, 1, 973), (913, 929, 1, 945), (931, 939, 1, 963), (975, 975, 1, 983),
  (984, 1006, 2, 985), (1012, 1012, 1, 952), (1015, 1015, 1, 1016), (1017, 1017, 1, 1010),
  (1018, 1018, 1, 1019), (1021, 1023, 1, 891), (1024, 1039, 1, 1104), (1040, 1071, 1, 1072),
  (1120, 1152, 2, 1121), (1162, 1214, 2, 1163), (1216, 1216, 1, 1231),
  (1217, 1229, 2, 1218), (1232, 1326, 2, 1233), (1329, 1366, 1, 1377),
  (4256, 4293, 1, 11520), (4295, 4295, 1, 11559), (4301, 4301, 1, 11565),
  (5024, 5103, 1, 43888), (5104, 5109, 1, 5112), (7312, 7354, 1, 4304),
  (7357, 7359, 1, 4349), (7680, 7828, 2, 7681), (7838, 7838, 1, 223), (7840, 7934, 2, 7841),
  (7944, 7951, 1, 7936), (7960, 7965, 1, 7952), (7976, 7983, 1, 7968),
  (7992, 7999, 1, 7984), (8008, 8013, 1, 8000), (8025, 8031, 2, 8017),
  (8040, 8047, 1, 8032), (8072, 8079, 1, 8064), (8088, 8095, 1, 8080),
  (8104, 8111, 1, 8096), (8120, 8121, 1, 8112), (8122, 8123, 1, 8048),
  (8124, 8124, 1, 8115), (8136, 8139, 1, 8050), (8140, 8140, 1, 8131),
  (8152, 8153, 1, 8144), (8154, 8155, 1, 8054), (8168, 8169, 1, 8160),
  (8170, 8171, 1, 8058), (8172, 8172, 1, 8165), (8184, 8185, 1, 8056),
  (8186, 8187, 1, 8060), (8188, 8188, 1, 8179), (8486, 8486, 1, 969), (8490, 8490, 1, 107),
  (8491, 8491, 1, 229), (8498, 8498, 1, 8526), (8544, 8559, 1, 8560), (8579, 8579, 1, 8580),
  (9398, 9423, 1, 9424), (11264, 11311, 1, 11312), (11360, 11360, 1, 11361),
  (11362, 11362, 1, 619), (11363, 11363, 1, 7549), (11364, 11364, 1, 637),
  (11367, 11371, 2, 11368), (11373, 11373, 1, 593), (11374, 11374, 1, 625),
  (11375, 11375, 1, 592), (11376, 11376, 1, 594), (11378, 11378, 1, 11379),
  (11381, 11381, 1, 11382), (11390, 11391, 1, 575), (11392, 11490, 2, 11393),
  (11499, 11501, 2, 11500), (11506, 11506, 1, 11507), (42560, 42604, 2, 42561),
  (42624, 42650, 2, 42625), (42786, 42798, 2, 42787), (42802, 42862, 2, 42803),
  (42873, 42875, 2, 42874), (42877, 42877, 1, 7545), (42878, 42886, 2, 42879),
  (42891, 42891, 1, 42892), (42893, 42893, 1, 613), (42896, 42898, 2, 42897),
  (42902, 42920, 2, 42903), (42922, 42922, 1, 614), (42923, 42923, 1, 604),
  (42924, 42924, 1, 609), (42925, 42925, 1, 620), (42926, 42926, 1, 618),
  (42928, 42928, 1, 670), (42929, 42929, 1, 647), (42930, 42930, 1, 669),
  (42931, 42931, 1, 43859), (42932, 42946, 2, 42933), (42948, 42948, 1, 42900),
  (42949, 42949, 1, 642), (42950, 42950, 1, 7566), (42951, 42953, 2, 42952),
  (42960, 42960, 1, 42961), (42966, 42968, 2, 42967), (42997, 42997, 1, 42998),
  (65313, 65338, 1, 65345), (66560, 66599, 1, 66600), (66736, 66771, 1, 66776),
  (66928, 66938, 1, 66967), (66940, 66954, 1, 66979), (66956, 66962, 1, 66995),
  (66964, 66965, 1, 67003), (68736, 68786, 1, 68800), (71840, 71871, 1, 71872),
  (93760, 93791, 1, 93792), (125184, 125217, 1, 125218)]"

definition lower_special :: "(codepoint \<times> pystr) list" where
  "lower_special = [
    (304, [105, 775])]"

definition upper_ranges :: "case_range list" where
  "upper_ranges = [
  (97, 122, 1, 65), (181, 181, 1, 924), (224, 246, 1, 192), (248, 254, 1, 216),
  (255, 255, 1, 376), (257, 303, 2, 256), (305, 305, 1, 73), (307, 311, 2, 306),
  (314, 328, 2, 313), (331, 375, 2, 330), (378, 382, 2, 377), (383, 383, 1, 83),
  (384, 384, 1, 579), (387, 389, 2, 386), (392, 392, 1, 391), (396, 396, 1, 395),
  (402, 402, 1, 401), (405, 405, 1, 502), (409, 409, 1, 408), (410, 410, 1, 573),
  (414, 414, 1, 544), (417, 421, 2, 416), (424, 424, 1, 423), (429, 429, 1, 428),
  (432, 432, 1, 431), (436, 438, 2, 435), (441, 441, 1, 440), (445, 445, 1, 444),
  (447, 447, 1, 503), (453, 453, 1, 452), (454, 454, 1, 452), (456, 456, 1, 455),
  (457, 457, 1, 455), (459, 459, 1, 458), (460, 460, 1, 458), (462, 476, 2, 461),
  (477, 477, 1, 398), (479, 495, 2, 478), (498, 498, 1, 497), (499, 499, 1, 497),
  (501, 501, 1, 500), (505, 543, 2, 504), (547, 563, 2, 546), (572, 572, 1, 571),
  (575, 576, 1, 11390), (578, 578, 1, 577), (583, 591, 2, 582), (592, 592, 1, 11375),
  (593, 593, 1, 11373), (594, 594, 1, 11376), (595, 595, 1, 385), (596, 596, 1, 390),
  (598, 599, 1, 393), (601, 601, 1, 399), (603, 603, 1, 400), (604, 604, 1, 42923),
  (608, 608, 1, 403), (609, 609, 1, 42924), (611, 611, 1, 404), (613, 613, 1, 42893),
  (614, 614, 1, 42922), (616, 616, 1, 407), (617, 617, 1, 406), (618, 618, 1, 42926),
  (619, 619, 1, 11362), (620, 620, 1, 42925), (623, 623, 1, 412), (625, 625, 1, 11374),
  (626, 626, 1, 413), (629, 629, 1, 415), (637, 637, 1, 11364), (640, 640, 1, 422),
  (642, 642, 1, 42949), (643, 643, 1, 425), (647, 647, 1, 42929), (648, 648, 1, 430),
  (649, 649, 1, 580), (650, 651, 1, 433), (652, 652, 1, 581), (658, 658, 1, 439),
  (669, 669, 1, 42930), (670, 670, 1, 42928), (837, 837, 1, 921), (881, 883, 2, 880),
  (887, 887, 1, 886), (891, 893, 1, 1021), (940, 940, 1, 902), (941, 943, 1, 904),
  (945, 961, 1, 913), (962, 962, 1, 931), (963, 971, 1, 931), (972, 972, 1, 908),
  (973, 974, 1, 910), (976, 976, 1, 914), (977, 977, 1, 920), (981, 981, 1, 934),
  (982, 982, 1, 928), (983, 983, 1, 975), (985, 1007, 2, 984), (1008, 1008, 1, 922),
  (1009, 1009, 1, 929), (1010, 1010, 1, 1017), (1011, 1011, 1, 895), (1013, 1013, 1, 917),
  (1016, 1016, 1, 1015), (1019, 1019, 1, 1018), (1072, 1103, 1, 1040),
  (1104, 1119, 1, 1024), (1121, 1153, 2, 1120), (1163, 1215, 2, 1162),
  (1218, 1230, 2, 1217), (1231, 1231, 1, 1216), (1233, 1327, 2, 1232),
  (1377, 1414, 1, 1329), (4304, 4346, 1, 7312), (4349, 4351, 1, 7357),
  (5112, 5117, 1, 5104), (7296, 7296, 1, 1042), (7297, 7297, 1, 1044),
  (7298, 7298, 1, 1054), (7299, 7300, 1, 1057), (7301, 7301, 1, 1058),
  (7302, 7302, 1, 1066), (7303, 7303, 1, 1122), (7304, 7304, 1, 42570),
  (7545, 7545, 1, 42877), (7549, 7549, 1, 11363), (7566, 7566, 1, 42950),
  (7681, 7829, 2, 7680), (7835, 7835, 1, 7776), (7841, 7935, 2, 7840),
  (7936, 7943, 1, 7944), (7952, 7957, 1, 7960), (7968, 7975, 1, 7976),
  (7984, 7991, 1, 7992), (8000, 8005, 1, 8008), (8017, 8023, 2, 8025),
  (8032, 8039, 1, 8040), (8048, 8049, 1, 8122), (8050, 8053, 1, 8136),
  (8054, 8055, 1, 8154), (8056, 8057, 1, 8184), (8058, 8059, 1, 8170),
  (8060, 8061, 1, 8186), (8112, 8113, 1, 8120), (8126, 8126, 1, 921), (8144, 8145, 1, 8152),
  (8160, 8161, 1, 8168), (8165, 8165, 1, 8172), (8526, 8526, 1, 8498),
  (8560, 8575, 1, 8544), (8580, 8580, 1, 8579), (9424, 9449, 1, 9398),
  (11312, 11359, 1, 11264), (11361, 11361, 1, 11360), (11365, 11365, 1, 570),
  (11366, 11366, 1, 574), (11368, 11372, 2, 11367), (11379, 11379, 1, 11378),
  (11382, 11382, 1, 11381), (11393, 11491, 2, 11392), (11500, 11502, 2, 11499),
  (11507, 11507, 1, 11506), (11520, 11557, 1, 4256), (11559, 11559, 1, 4295),
  (11565, 11565, 1, 4301), (42561, 42605, 2, 42560), (42625, 42651, 2, 42624),
  (42787, 42799, 2, 42786), (42803, 42863, 2, 42802), (42874, 42876, 2, 42873),
  (42879, 42887, 2, 42878), (42892, 42892, 1, 42891), (42897, 42899, 2, 42896),
  (42900, 42900, 1, 42948), (42903, 42921, 2, 42902), (42933, 42947, 2, 42932),
  (42952, 42954, 2, 42951), (42961, 42961, 1, 42960), (42967, 42969, 2, 42966),
  (42998, 42998, 1, 42997), (43859, 43859, 1, 42931), (43888, 43967, 1, 5024),
  (65345, 65370, 1, 65313), (66600, 66639, 1, 66560), (66776, 66811, 1, 66736),
  (66967, 66977, 1, 66928), (66979, 66993, 1, 66940), (66995, 67001, 1, 66956),
  (67003, 67004, 1, 66964), (68800, 68850, 1, 68736), (71872, 71903, 1, 71840),
  (93792, 93823, 1, 93760), (125218, 125251, 1, 125184)]"

definition upper_special :: "(codepoint \<times> pystr) list" where
  "upper_special = [
    (223, [83, 83]), (329, [700, 78]), (496, [74, 780]), (912, [921, 776, 769]),
    (944, [933, 776, 769]), (1415, [1333, 1362]), (7830, [72, 817]), (7831, [84, 776]),
    (7832, [87, 778]), (7833, [89, 778]), (7834, [65, 702]), (8016, [933, 787]),
    (8018, [933, 787, 768]), (8020, [933, 787, 769]), (8022, [933, 787, 834]),
    (8064, [7944, 921]), (8065, [7945, 921]), (8066, [7946, 921]), (8067, [7947, 921]),
    (8068, [7948, 921]), (8069, [7949, 921]), (8070, [7950, 921]), (8071, [7951, 921]),
    (8072, [7944, 921]), (8073, [7945, 921]), (8074, [7946, 921]), (8075, [7947, 921]),
    (8076, [7948, 921]), (8077, [7949, 921]), (8078, [7950, 921]), (8079, [7951, 921]),
    (8080, [7976, 921]), (8081, [7977, 921]), (8082, [7978, 921]), (8083, [7979, 921]),
    (8084, [7980, 921]), (8085, [7981, 921]), (8086, [7982, 921]), (8087, [7983, 921]),
    (8088, [7976, 921]), (8089, [7977, 921]), (8090, [7978, 921]), (8091, [7979, 921]),
    (8092, [7980, 921]), (8093, [7981, 921]), (8094, [7982, 921]), (8095, [7983, 921]),
    (8096, [8040, 921]), (8097, [8041, 921]), (8098, [8042, 921]), (8099, [8043, 921]),
    (8100, [8044, 921]), (8101, [8045, 921]), (8102, [8046, 921]), (8103, [8047, 921]),
    (8104, [8040, 921]), (8105, [8041, 921]), (8106, [8042, 921]), (8107, [8043, 921]),
    (8108, [8044, 921]), (8109, [8045, 921]), (8110, [8046, 921]), (8111, [8047, 921]),
    (8114, [8122, 921]), (8115, [913, 921]), (8116, [902, 921]), (8118, [913, 834]),
    (8119, [913, 834, 921]), (8124, [913, 921]), (8130, [8138, 921]), (8131, [919, 921]),
    (8132, [905, 921]), (8134, [919, 834]), (8135, [919, 834, 921]), (8140, [919, 921]),
    (8146, [921, 776, 768]), (8147, [921, 776, 769]), (8150, [921, 834]),
    (8151, [921, 776, 834]), (8162, [933, 776, 768]), (8163, [933, 776, 769]),
    (8164, [929, 787]), (8166, [933, 834]), (8167, [933, 776, 834]), (8178, [8186, 921]),
    (8179, [937, 921]), (8180, [911, 921]), (8182, [937, 834]), (8183, [937, 834, 921]),
    (8188, [937, 921]), (64256, [70, 70]), (64257, [70, 73]), (64258, [70, 76]),
    (64259, [70, 70, 73]), (64260, [70, 70, 76]), (64261, [83, 84]), (64262, [83, 84]),
    (64275, [1348, 1350]), (64276, [1348, 1333]), (64277, [1348, 1339]), (64278, [1358, 1350]),
    (64279, [1348, 1341])]"

definition to_lower_full :: "codepoint \<Rightarrow> pystr" where
  "to_lower_full c =
     (case map_of lower_special c of
        Some s \<Rightarrow> s
      | None \<Rightarrow> (case range_lookup lower_ranges c of Some d \<Rightarrow> [d] | None \<Rightarrow> [c]))"

definition to_upper_full :: "codepoint \<Rightarrow> pystr" where
  "to_upper_full c =
     (case map_of upper_special c of
        Some s \<Rightarrow> s
      | None \<Rightarrow> (case range_lookup upper_ranges c of Some d \<Rightarrow> [d] | None \<Rightarrow> [c]))"

section \<open>\<^verbatim>\<open>str.lower\<close> and \<^verbatim>\<open>str.upper\<close> on strings\<close>

text \<open>
  \<^verbatim>\<open>str.upper\<close> maps every code point by itself. \<^verbatim>\<open>str.lower\<close> does so too, but for
  the capital sigma (931): it becomes the final small sigma (962) when a cased character
  stands before it and none after it, case-ignorable characters being skipped, and the small
  sigma (963) otherwise. The two character properties are tables of the interpreter that the
  script never reaches (see \<open>str_lower_single\<close> below); they are parameters here. The
  argument \<open>before\<close> holds the characters already read, the nearest first.
\<close>

fun final_sigma :: "(codepoint \<Rightarrow> bool) \<Rightarrow> (codepoint \<Rightarrow> bool) \<Rightarrow> pystr \<Rightarrow> pystr \<Rightarrow> bool" where
  "final_sigma cased ignorable before after =
     (case dropWhile ignorable before of
        [] \<Rightarrow> False
      | c # _ \<Rightarrow> cased c \<and>
          (case dropWhile ignorable after of [] \<Rightarrow> True | d # _ \<Rightarrow> \<not> cased d))"

fun lower_from :: "(codepoint \<Rightarrow> bool) \<Rightarrow> (codepoint \<Rightarrow> bool) \<Rightarrow> pystr \<Rightarrow> pystr \<Rightarrow> pystr" where
  "lower_from cased ignorable before [] = []"
| "lower_from cased ignorable before (c # after) =
     (if c = 931 then [if final_sigma cased ignorable before after then 962 else 963]
      else to_lower_full c)
     @ lower_from cased ignorable (c # before) after"

definition str_lower :: "(codepoint \<Rightarrow> bool) \<Rightarrow> (codepoint \<Rightarrow> bool) \<Rightarrow> pystr \<Rightarrow> pystr" where
  "str_lower cased ignorable s = lower_from cased ignorable [] s"

definition str_upper :: "pystr \<Rightarrow> pystr" where
  "str_upper s = concat (map to_upper_full s)"

text \<open>
  \<^verbatim>\<open>ch.lower()\<close> and \<^verbatim>\<open>ch.upper()\<close> for the one-character string \<^verbatim>\<open>ch\<close> of the loop: no
  character stands before \<^verbatim>\<open>ch\<close>, so a capital sigma is never final.
\<close>

definition ch_lower :: "codepoint \<Rightarrow> pystr" where
  "ch_lower ch = to_lower_full ch"

definition ch_upper :: "codepoint \<Rightarrow> pystr" where
  "ch_upper ch = to_upper_full ch"

section \<open>The script\<close>

text \<open>
  \<^verbatim>\<open>
  def main():
      kw = sys.argv[1]
      ret = []
      for ch in kw:
          ret.append('[')
          ret.append(ch.lower())
          ret.append(ch.upper())
          ret.append(']')
      print("".join(ret))
      return
  \<close>
  The loop appends four strings to the list \<^verbatim>\<open>ret\<close> for every character; 91 and 93 are
  the brackets \<^verbatim>\<open>[\<close> and \<^verbatim>\<open>]\<close>.
\<close>

fun main_loop :: "pystr \<Rightarrow> pystr list \<Rightarrow> pystr list" where
  "main_loop [] ret = ret"
| "main_loop (ch # kw) ret =
     main_loop kw ((((ret @ [[91]]) @ [ch_lower ch]) @ [ch_upper ch]) @ [[93]])"

text \<open>\<^verbatim>\<open>sep.join(xs)\<close> for a list of strings.\<close>

fun join :: "pystr \<Rightarrow> pystr list \<Rightarrow> pystr" where
  "join sep [] = []"
| "join sep [x] = x"
| "join sep (x # y # ys) = x @ sep @ join sep (y # ys)"

text \<open>The string the script hands to \<^verbatim>\<open>print\<close>: the transformed keyword.\<close>

definition transform :: "pystr \<Rightarrow> pystr" where
  "transform kw = join [] (main_loop kw [])"

text \<open>
  The two exceptions a run can end with: \<^verbatim>\<open>sys.argv[1]\<close> raises \<^verbatim>\<open>IndexError\<close>, and
  \<^verbatim>\<open>print\<close> raises \<^verbatim>\<open>UnicodeEncodeError\<close>. Nothing in the script catches them.
\<close>

datatype error = IndexError | UnicodeEncodeError

text \<open>
  \<^verbatim>\<open>print(s)\<close> writes \<^verbatim>\<open>s\<close> and then a newline (10) to the standard output, a text stream
  whose codec and error handler come from the environment (the locale,
  \<^verbatim>\<open>PYTHONIOENCODING\<close>). Writing \<^verbatim>\<open>s\<close> raises \<^verbatim>\<open>UnicodeEncodeError\<close> when the stream cannot
  encode a character of \<^verbatim>\<open>s\<close>, before anything is written. The environment is the
  parameter \<open>enc\<close>: \<open>enc c\<close> tells that the stream writes the character \<open>c\<close> without
  raising. The newline is encoded by every codec of the interpreter, so its write does not
  raise. The result is the error or the text written, as code points.
\<close>

definition py_print :: "(codepoint \<Rightarrow> bool) \<Rightarrow> pystr \<Rightarrow> error + pystr" where
  "py_print enc s = (if list_all enc s then Inr (s @ [10]) else Inl UnicodeEncodeError)"

text \<open>
  Two standard outputs: UTF-8 with the handler \<^verbatim>\<open>strict\<close>, the default in a UTF-8 locale,
  which encodes every code point but the surrogates U+D800 to U+DFFF (55296 to 57343), and
  ASCII with the handler \<^verbatim>\<open>strict\<close>, which encodes the code points below 128. A character
  of \<^verbatim>\<open>sys.argv\<close> is a surrogate when the command line has a byte that the locale cannot
  decode.
\<close>

definition utf8_strict :: "codepoint \<Rightarrow> bool" where
  "utf8_strict c = ((c < 55296 \<or> 57343 < c) \<and> c < 1114112)"

definition ascii_strict :: "codepoint \<Rightarrow> bool" where
  "ascii_strict c = (c < 128)"

text \<open>
  A run of the script on the argument vector \<^verbatim>\<open>sys.argv\<close> (the script's name first), with
  the standard output \<open>enc\<close>. \<^verbatim>\<open>sys.argv[1]\<close> raises \<^verbatim>\<open>IndexError\<close> when the list has fewer
  than two elements. A run ends with the error (\<open>Inl\<close>) or with the text written to the
  standard output (\<open>Inr\<close>). The interpreter exits with status 1 on an uncaught exception,
  having written nothing to the standard output, and with status 0 otherwise.
\<close>

definition main :: "(codepoint \<Rightarrow> bool) \<Rightarrow> pystr list \<Rightarrow> error + pystr" where
  "main enc argv =
     (if length argv \<le> 1 then Inl IndexError
      else py_print enc (transform (argv ! 1)))"

fun exit_status :: "error + pystr \<Rightarrow> nat" where
  "exit_status (Inl e) = 1"
| "exit_status (Inr out) = 0"

fun stdout_text :: "error + pystr \<Rightarrow> pystr" where
  "stdout_text (Inl e) = []"
| "stdout_text (Inr out) = out"

section \<open>Numbers, punctuation marks and symbols\<close>







section \<open>Predicates on the tables\<close>

text \<open>The images of a range all lie below \<open>a\<close> or all lie above \<open>b\<close>.\<close>

fun image_outside :: "nat \<Rightarrow> nat \<Rightarrow> case_range \<Rightarrow> bool" where
  "image_outside a b (lo, hi, st, tg) = (tg + (hi - lo) < a \<or> b < tg)"

text \<open>The images of a range all lie below \<open>n\<close>.\<close>

fun image_below :: "nat \<Rightarrow> case_range \<Rightarrow> bool" where
  "image_below n (lo, hi, st, tg) = (tg + (hi - lo) < n)"

section \<open>A checker for the images of a table\<close>

text \<open>
  Applying a case mapping twice gives nothing new when no image of the table is itself
  mapped by the table. The checker below decides this by comparing intervals. An
  \<open>image\<close> \<open>(a, b, st, sg)\<close> stands for the images of one range: they lie between \<open>a\<close>
  and \<open>b\<close>, are congruent to \<open>a\<close> modulo \<open>st\<close>, and \<open>sg\<close> tells that \<open>a\<close> is the only one.
  The table to compare with is cut into blocks of eight ranges, each block with the least
  and the greatest code point of its ranges, so that an image is compared with the ranges
  of the few blocks it can meet only.
\<close>

type_synonym image = "nat \<times> nat \<times> nat \<times> bool"

fun img_of :: "case_range \<Rightarrow> image" where
  "img_of (lo, hi, st, tg) = (tg, tg + (hi - lo), st, lo = hi)"

fun in_image :: "codepoint \<Rightarrow> image \<Rightarrow> bool" where
  "in_image d (a, b, st, sg) =
     (a \<le> d \<and> d \<le> b \<and> d mod st = a mod st \<and> (if sg then d = a else True))"

fun strides_ok :: "bool \<Rightarrow> image \<Rightarrow> case_range \<Rightarrow> bool" where
  "strides_ok True i r = True"
| "strides_ok False (a, b, st, sg) (lo, hi, st', tg) =
     ((st = st' \<and> a mod st \<noteq> lo mod st) \<or> (sg \<and> \<not> in_range a (lo, hi, st', tg)))"

fun pair_ok :: "image \<Rightarrow> case_range \<Rightarrow> bool" where
  "pair_ok (a, b, st, sg) (lo, hi, st', tg) =
     strides_ok (b < lo \<or> hi < a) (a, b, st, sg) (lo, hi, st', tg)"

fun block_ok :: "image \<Rightarrow> case_range list \<Rightarrow> bool" where
  "block_ok i [] = True"
| "block_ok i (r # rs) = (pair_ok i r \<and> block_ok i rs)"

fun boxed_ok :: "bool \<Rightarrow> image \<Rightarrow> case_range list \<Rightarrow> bool" where
  "boxed_ok True i blk = True"
| "boxed_ok False i blk = block_ok i blk"

fun blocks_ok :: "image \<Rightarrow> ((nat \<times> nat) \<times> case_range list) list \<Rightarrow> bool" where
  "blocks_ok i [] = True"
| "blocks_ok (a, b, st, sg) (((l, h), blk) # bs) =
     (boxed_ok (b < l \<or> h < a) (a, b, st, sg) blk \<and> blocks_ok (a, b, st, sg) bs)"

fun images_ok :: "image list \<Rightarrow> ((nat \<times> nat) \<times> case_range list) list \<Rightarrow> bool" where
  "images_ok [] bs = True"
| "images_ok (i # is) bs = (blocks_ok i bs \<and> images_ok is bs)"

fun chunks :: "'a list \<Rightarrow> 'a list list" where
  "chunks (a # b # c # d # e # f # g # h # rest) = [a, b, c, d, e, f, g, h] # chunks rest"
| "chunks xs = [xs]"

fun box_acc :: "nat \<Rightarrow> nat \<Rightarrow> case_range list \<Rightarrow> nat \<times> nat" where
  "box_acc l h [] = (l, h)"
| "box_acc l h ((lo, hi, st, tg) # rs) = box_acc (min l lo) (max h hi) rs"

fun block_box :: "case_range list \<Rightarrow> nat \<times> nat" where
  "block_box [] = (0, 0)"
| "block_box ((lo, hi, st, tg) # rs) = box_acc lo hi rs"

fun boxes :: "case_range list list \<Rightarrow> ((nat \<times> nat) \<times> case_range list) list" where
  "boxes [] = []"
| "boxes (blk # bs) = (block_box blk, blk) # boxes bs"

text \<open>
  The keys of a special table, as ranges of one code point, and the code points of its
  values, as images.
\<close>

definition special_keys :: "(codepoint \<times> pystr) list \<Rightarrow> case_range list" where
  "special_keys sp = map (\<lambda>p. (fst p, fst p, 1, fst p)) sp"

definition value_images :: "(codepoint \<times> pystr) list \<Rightarrow> image list" where
  "value_images sp = concat (map (\<lambda>p. map (\<lambda>d. (d, d, 1, True)) (snd p)) sp)"




section \<open>The loop and the join\<close>

lemma join_empty_sep: "join [] xs = concat xs"
proof (induction xs)
  case Nil
  show ?case by simp
next
  case (Cons x xs)
  then show ?case by (cases xs) simp_all
qed

lemma main_loop_acc:
  "main_loop kw ret = ret @ concat (map (\<lambda>ch. [[91], ch_lower ch, ch_upper ch, [93]]) kw)"
  by (induction kw arbitrary: ret) simp_all

lemma transform_groups:
  "transform kw = concat (map (\<lambda>ch. [91] @ ch_lower ch @ ch_upper ch @ [93]) kw)"
  by (induction kw) (simp_all add: transform_def main_loop_acc join_empty_sep)

lemma transform_Nil: "transform [] = []"
  by (simp add: transform_def)

lemma transform_Cons:
  "transform (ch # kw) = [91] @ ch_lower ch @ ch_upper ch @ [93] @ transform kw"
  by (simp add: transform_groups)

section \<open>Runs of the script\<close>

text \<open>
  C2, as amended. For every keyword the output is the concatenation, in the order of the
  keyword's characters, of one group per character \<open>ch\<close>: the bracket \<^verbatim>\<open>[\<close>, the string
  \<^verbatim>\<open>ch.lower()\<close>, the string \<^verbatim>\<open>ch.upper()\<close> and the bracket \<^verbatim>\<open>]\<close>. The two case
  mappings are strings, not single characters, so a group need not have four characters.
\<close>

theorem transform_is_groups:
  "transform kw = concat (map (\<lambda>ch. [91] @ ch_lower ch @ ch_upper ch @ [93]) kw)"
  by (rule transform_groups)

text \<open>
  C2 as stated fails at the keyword made of the one character U+0149 (329): its upper-case
  mapping has the two characters U+02BC, \<^verbatim>\<open>N\<close> (700, 78), and its group has five characters.
\<close>

theorem group_of_five_counterexample:
  "transform [329] = [91, 329, 700, 78, 93] \<and> length (transform [329]) \<noteq> 4"
  by (simp add: transform_Cons transform_Nil ch_lower_def ch_upper_def to_lower_full_def
      to_upper_full_def lower_special_def upper_special_def lower_ranges_def)

text \<open>
  C4. Without the argument the access \<^verbatim>\<open>sys.argv[1]\<close> raises \<^verbatim>\<open>IndexError\<close>: the exit
  status is not 0 and nothing is written to the standard output.
\<close>

theorem main_missing_argument:
  "length argv < 2 \<Longrightarrow>
     main enc argv = Inl IndexError \<and> exit_status (main enc argv) \<noteq> 0 \<and>
     stdout_text (main enc argv) = []"
  by (simp add: main_def)

theorem main_missing_argument_witness:
  "length [[107, 119]] < 2 \<and> main utf8_strict [[107, 119]] = Inl IndexError \<and>
   exit_status (main utf8_strict [[107, 119]]) \<noteq> 0 \<and>
   stdout_text (main utf8_strict [[107, 119]]) = []"
  using main_missing_argument [of "[[107, 119]]" utf8_strict] by simp

text \<open>
  C5. The empty keyword is transformed into the empty string; the run writes the empty
  string and a newline, that is a newline alone, and the exit status is 0, whatever the
  standard output can encode.
\<close>

theorem main_empty_keyword:
  "transform [] = [] \<and> main enc [prog, []] = Inr ([] @ [10]) \<and>
   stdout_text (main enc [prog, []]) = [10] \<and> exit_status (main enc [prog, []]) = 0"
  by (simp add: main_def py_print_def transform_def)

text \<open>
  C9. Two runs whose first argument is the same end the same way, with the same output and
  the same exit status, whatever the script's name and the further arguments are (the
  standard output being the same).
\<close>

theorem main_first_argument_only:
  "2 \<le> length argv \<Longrightarrow> 2 \<le> length argv' \<Longrightarrow> argv ! 1 = argv' ! 1 \<Longrightarrow>
     main enc argv = main enc argv' \<and>
     stdout_text (main enc argv) = stdout_text (main enc argv') \<and>
     exit_status (main enc argv) = exit_status (main enc argv')"
  by (simp add: main_def)

theorem main_first_argument_only_witness:
  "2 \<le> length [[107], [97, 98]] \<and> 2 \<le> length [[120, 121], [97, 98], [99], []] \<and>
   [[107], [97, 98]] ! 1 = [[120, 121], [97, 98], [99], []] ! 1 \<and>
   main utf8_strict [[107], [97, 98]] = main utf8_strict [[120, 121], [97, 98], [99], []] \<and>
   stdout_text (main utf8_strict [[107], [97, 98]])
     = stdout_text (main utf8_strict [[120, 121], [97, 98], [99], []]) \<and>
   exit_status (main utf8_strict [[107], [97, 98]])
     = exit_status (main utf8_strict [[120, 121], [97, 98], [99], []])"
  using main_first_argument_only
    [of "[[107], [97, 98]]" "[[120, 121], [97, 98], [99], []]" utf8_strict]
  by simp

section \<open>Facts about the case tables\<close>

lemma in_range_unfold:
  "in_range c r = (fst r \<le> c \<and> c \<le> fst (snd r) \<and> (c - fst r) mod fst (snd (snd r)) = 0)"
  by (cases r) auto

lemma range_lookup_above:
  "list_all (\<lambda>r. c < fst r) rs \<Longrightarrow> range_lookup rs c = None"
  by (induction rs) (auto simp: in_range_unfold)

lemma range_lookup_SomeD:
  "range_lookup rs c = Some d \<Longrightarrow> \<exists>r \<in> set rs. in_range c r \<and> d = range_image c r"
  by (induction rs) (auto split: if_splits)

lemma map_of_above:
  "list_all (\<lambda>p. (c::nat) < fst p) sp \<Longrightarrow> map_of sp c = None"
  by (induction sp) auto

lemma map_of_list_all:
  "map_of sp c = Some v \<Longrightarrow> list_all P sp \<Longrightarrow> P (c, v)"
  by (auto simp: list_all_iff dest: map_of_SomeD)

lemma image_outside_sound:
  "in_range c r \<Longrightarrow> image_outside a b r \<Longrightarrow> range_image c r < a \<or> b < range_image c r"
  by (cases r) auto

lemma range_lookup_outside:
  assumes "range_lookup rs c = Some d" and "list_all (image_outside a b) rs"
  shows "d < a \<or> b < d"
proof -
  from assms(1) obtain r where r: "r \<in> set rs" "in_range c r" "d = range_image c r"
    by (blast dest: range_lookup_SomeD)
  from assms(2) r(1) have "image_outside a b r" by (simp add: list_all_iff)
  with r(2,3) show ?thesis by (simp add: image_outside_sound)
qed

subsection \<open>ASCII\<close>

lemma lower_ranges_split: "lower_ranges = (65, 90, 1, 97) # tl lower_ranges"
  by (simp add: lower_ranges_def)

lemma lower_ranges_tail: "list_all (\<lambda>r. 128 \<le> fst r) (tl lower_ranges)"
  by (simp add: lower_ranges_def)

lemma upper_ranges_split: "upper_ranges = (97, 122, 1, 65) # tl upper_ranges"
  by (simp add: upper_ranges_def)

lemma upper_ranges_tail: "list_all (\<lambda>r. 128 \<le> fst r) (tl upper_ranges)"
  by (simp add: upper_ranges_def)

lemma upper_special_keys: "list_all (\<lambda>p. 128 \<le> fst p) upper_special"
  by (simp add: upper_special_def)

lemma lower_ranges_ascii:
  assumes "c < 128"
  shows "range_lookup lower_ranges c = (if 65 \<le> c \<and> c \<le> 90 then Some (c + 32) else None)"
proof -
  have "list_all (\<lambda>r. c < fst r) (tl lower_ranges)"
    using lower_ranges_tail assms by (auto simp: list_all_iff)
  then have "range_lookup (tl lower_ranges) c = None" by (rule range_lookup_above)
  then show ?thesis by (subst lower_ranges_split) simp
qed

lemma lower_special_ascii: "c < 128 \<Longrightarrow> map_of lower_special c = None"
  by (simp add: lower_special_def)

lemma upper_ranges_ascii:
  assumes "c < 128"
  shows "range_lookup upper_ranges c = (if 97 \<le> c \<and> c \<le> 122 then Some (c - 32) else None)"
proof -
  have "list_all (\<lambda>r. c < fst r) (tl upper_ranges)"
    using upper_ranges_tail assms by (auto simp: list_all_iff)
  then have "range_lookup (tl upper_ranges) c = None" by (rule range_lookup_above)
  then show ?thesis by (subst upper_ranges_split) auto
qed

lemma upper_special_ascii:
  assumes "c < 128"
  shows "map_of upper_special c = None"
proof -
  have "list_all (\<lambda>p. c < fst p) upper_special"
    using upper_special_keys assms by (auto simp: list_all_iff)
  then show ?thesis by (rule map_of_above)
qed

lemma ch_lower_ascii:
  "c < 128 \<Longrightarrow> ch_lower c = [if 65 \<le> c \<and> c \<le> 90 then c + 32 else c]"
  by (simp add: ch_lower_def to_lower_full_def lower_ranges_ascii lower_special_ascii)

lemma ch_upper_ascii:
  "c < 128 \<Longrightarrow> ch_upper c = [if 97 \<le> c \<and> c \<le> 122 then c - 32 else c]"
  by (simp add: ch_upper_def to_upper_full_def upper_ranges_ascii upper_special_ascii)

subsection \<open>Lengths of the mappings\<close>

lemma lower_special_nonempty: "list_all (\<lambda>p. snd p \<noteq> []) lower_special"
  by (simp add: lower_special_def)

lemma upper_special_nonempty: "list_all (\<lambda>p. snd p \<noteq> []) upper_special"
  by (simp add: upper_special_def)

lemma ch_lower_nonempty: "1 \<le> length (ch_lower c)"
proof (cases "map_of lower_special c")
  case None
  then show ?thesis by (simp add: ch_lower_def to_lower_full_def split: option.splits)
next
  case (Some v)
  from map_of_list_all [OF Some lower_special_nonempty] have "v \<noteq> []" by simp
  with Some show ?thesis by (cases v) (simp_all add: ch_lower_def to_lower_full_def)
qed

lemma ch_upper_nonempty: "1 \<le> length (ch_upper c)"
proof (cases "map_of upper_special c")
  case None
  then show ?thesis by (simp add: ch_upper_def to_upper_full_def split: option.splits)
next
  case (Some v)
  from map_of_list_all [OF Some upper_special_nonempty] have "v \<noteq> []" by simp
  with Some show ?thesis by (cases v) (simp_all add: ch_upper_def to_upper_full_def)
qed

subsection \<open>No mapping produces a bracket\<close>

lemma lower_special_brackets:
  "list_all (\<lambda>p. 91 \<notin> set (snd p) \<and> 93 \<notin> set (snd p)) lower_special"
  by (simp add: lower_special_def)

lemma upper_special_brackets:
  "list_all (\<lambda>p. 91 \<notin> set (snd p) \<and> 93 \<notin> set (snd p)) upper_special"
  by (simp add: upper_special_def)

lemma lower_ranges_brackets: "list_all (image_outside 91 93) lower_ranges"
  by (simp add: lower_ranges_def)

lemma upper_ranges_brackets: "list_all (image_outside 91 93) upper_ranges"
  by (simp add: upper_ranges_def)

lemma ch_lower_brackets:
  assumes "c \<noteq> 91" and "c \<noteq> 93"
  shows "91 \<notin> set (ch_lower c) \<and> 93 \<notin> set (ch_lower c)"
proof (cases "map_of lower_special c")
  case (Some v)
  from map_of_list_all [OF Some lower_special_brackets] Some
  show ?thesis by (simp add: ch_lower_def to_lower_full_def)
next
  case None
  show ?thesis
  proof (cases "range_lookup lower_ranges c")
    case n: None
    with None assms show ?thesis by (simp add: ch_lower_def to_lower_full_def)
  next
    case (Some d)
    from range_lookup_outside [OF Some lower_ranges_brackets] have "d < 91 \<or> 93 < d" .
    with None Some show ?thesis by (auto simp: ch_lower_def to_lower_full_def)
  qed
qed

lemma ch_upper_brackets:
  assumes "c \<noteq> 91" and "c \<noteq> 93"
  shows "91 \<notin> set (ch_upper c) \<and> 93 \<notin> set (ch_upper c)"
proof (cases "map_of upper_special c")
  case (Some v)
  from map_of_list_all [OF Some upper_special_brackets] Some
  show ?thesis by (simp add: ch_upper_def to_upper_full_def)
next
  case None
  show ?thesis
  proof (cases "range_lookup upper_ranges c")
    case n: None
    with None assms show ?thesis by (simp add: ch_upper_def to_upper_full_def)
  next
    case (Some d)
    from range_lookup_outside [OF Some upper_ranges_brackets] have "d < 91 \<or> 93 < d" .
    with None Some show ?thesis by (auto simp: ch_upper_def to_upper_full_def)
  qed
qed

section \<open>The transformed keyword\<close>

text \<open>
  C1, as amended. The output has two brackets per character of the keyword and the two case
  mappings of the character between them: its length is at least four times the length of
  the keyword, and exactly four times that length when every character of the keyword is
  ASCII.
\<close>

theorem transform_length:
  "length (transform s) = (\<Sum>c\<leftarrow>s. 2 + length (ch_lower c) + length (ch_upper c)) \<and>
   4 * length s \<le> length (transform s) \<and>
   ((\<forall>c \<in> set s. c < 128) \<longrightarrow> length (transform s) = 4 * length s)"
proof (induction s)
  case Nil
  show ?case by (simp add: transform_Nil)
next
  case (Cons c s)
  have "1 \<le> length (ch_lower c)" "1 \<le> length (ch_upper c)"
    by (rule ch_lower_nonempty, rule ch_upper_nonempty)
  moreover have "c < 128 \<Longrightarrow> length (ch_lower c) = 1 \<and> length (ch_upper c) = 1"
    by (simp add: ch_lower_ascii ch_upper_ascii)
  ultimately show ?case using Cons by (auto simp: transform_Cons)
qed

theorem transform_length_witness:
  "length (transform [97, 49, 90]) = 4 * length [97, 49, 90 :: codepoint]"
  using transform_length [of "[97, 49, 90]"] by simp

text \<open>
  C1 as stated fails at the keyword made of the one character U+00DF (223, the sharp s):
  its upper-case mapping is \<^verbatim>\<open>SS\<close>, and the output \<^verbatim>\<open>[\<close>, U+00DF, \<^verbatim>\<open>SS]\<close> has five characters.
\<close>

theorem transform_length_counterexample:
  "length (transform [223]) \<noteq> 4 * length [223 :: codepoint]"
  by (simp add: transform_Cons transform_Nil ch_lower_def ch_upper_def to_lower_full_def
      to_upper_full_def lower_special_def upper_special_def lower_ranges_def)

text \<open>
  C8. The scenarios of the specification: \<^verbatim>\<open>ab\<close> gives \<^verbatim>\<open>[aA][bB]\<close>, \<^verbatim>\<open>A\<close> gives
  \<^verbatim>\<open>[aA]\<close>, \<^verbatim>\<open>1\<close> gives \<^verbatim>\<open>[11]\<close> and \<^verbatim>\<open>Zz!\<close> gives \<^verbatim>\<open>[zZ][zZ][!!]\<close>.
\<close>

theorem transform_scenarios:
  "transform (ascii ''ab'') = ascii ''[aA][bB]'' \<and>
   transform (ascii ''A'') = ascii ''[aA]'' \<and>
   transform (ascii ''1'') = ascii ''[11]'' \<and>
   transform (ascii ''Zz!'') = ascii ''[zZ][zZ][!!]''"
proof -
  have "transform (ascii ''ab'') = ascii ''[aA][bB]''"
    by (simp add: ascii_def transform_Cons transform_Nil ch_lower_ascii ch_upper_ascii)
  moreover have "transform (ascii ''A'') = ascii ''[aA]''"
    by (simp add: ascii_def transform_Cons transform_Nil ch_lower_ascii ch_upper_ascii)
  moreover have "transform (ascii ''1'') = ascii ''[11]''"
    by (simp add: ascii_def transform_Cons transform_Nil ch_lower_ascii ch_upper_ascii)
  moreover have "transform (ascii ''Zz!'') = ascii ''[zZ][zZ][!!]''"
    by (simp add: ascii_def transform_Cons transform_Nil ch_lower_ascii ch_upper_ascii)
  ultimately show ?thesis by simp
qed

text \<open>
  C10, as amended. When the keyword has no bracket of its own, the output has as many
  opening brackets as the keyword has characters, as many closing brackets, and they
  alternate: the brackets of the output, in order, are \<^verbatim>\<open>[]\<close> once per character. This
  holds also for the characters whose case mapping has several characters, no case mapping
  producing a bracket.
\<close>

theorem brackets_alternate:
  "(\<forall>c \<in> set s. c \<noteq> 91 \<and> c \<noteq> 93) \<Longrightarrow>
     count_list (transform s) 91 = length s \<and> count_list (transform s) 93 = length s \<and>
     filter (\<lambda>x. x = 91 \<or> x = 93) (transform s) = concat (replicate (length s) [91, 93])"
proof (induction s)
  case Nil
  show ?case by (simp add: transform_Nil)
next
  case (Cons c s)
  then have c: "c \<noteq> 91" "c \<noteq> 93" by simp_all
  from ch_lower_brackets [OF c] ch_upper_brackets [OF c]
  have "count_list (ch_lower c) 91 = 0" "count_list (ch_lower c) 93 = 0"
    "count_list (ch_upper c) 91 = 0" "count_list (ch_upper c) 93 = 0"
    "filter (\<lambda>x. x = 91 \<or> x = 93) (ch_lower c) = []"
    "filter (\<lambda>x. x = 91 \<or> x = 93) (ch_upper c) = []"
    by (auto simp: count_list_0_iff filter_empty_conv)
  with Cons show ?case by (simp add: transform_Cons)
qed

theorem brackets_alternate_witness:
  "count_list (transform [223, 97]) 91 = length [223, 97 :: codepoint] \<and>
   count_list (transform [223, 97]) 93 = length [223, 97 :: codepoint] \<and>
   filter (\<lambda>x. x = 91 \<or> x = 93) (transform [223, 97])
     = concat (replicate (length [223, 97 :: codepoint]) [91, 93])"
  using brackets_alternate [of "[223, 97]"] by simp

text \<open>
  C10 as stated fails when the keyword has a bracket of its own: for the keyword \<^verbatim>\<open>[\<close> the
  output is \<^verbatim>\<open>[[[]\<close>, with three opening brackets for one character.
\<close>

theorem brackets_counterexample:
  "count_list (transform [91]) 91 \<noteq> length [91 :: codepoint]"
  by (simp add: transform_Cons transform_Nil ch_lower_ascii ch_upper_ascii)

section \<open>The checker is sound\<close>

lemma mod_shift: "(k::nat) mod m = 0 \<Longrightarrow> (a + k) mod m = a mod m"
  by (metis mod_add_right_eq add.right_neutral)

lemma mod_shift_le: "(lo::nat) \<le> x \<Longrightarrow> (x - lo) mod m = 0 \<Longrightarrow> x mod m = lo mod m"
  using mod_shift [of "x - lo" m lo] by simp

lemma in_image_img_of:
  assumes "in_range c r"
  shows "in_image (range_image c r) (img_of r)"
proof -
  obtain lo hi st tg where r: "r = (lo, hi, st, tg)" by (cases r) auto
  from assms r have c: "lo \<le> c" "c \<le> hi" "(c - lo) mod st = 0" by auto
  from c(3) have "(tg + (c - lo)) mod st = tg mod st" by (rule mod_shift)
  with c r show ?thesis by auto
qed

lemma in_image_value: "in_image d (d, d, 1, True)"
  by simp

lemma pair_ok_sound:
  assumes "pair_ok i r" and "in_image d i"
  shows "\<not> in_range d r"
proof -
  obtain a b st sg where i: "i = (a, b, st, sg)" by (cases i) auto
  obtain lo hi st' tg where r: "r = (lo, hi, st', tg)" by (cases r) auto
  show ?thesis
  proof (cases "b < lo \<or> hi < a")
    case True
    with assms(2) i r show ?thesis by auto
  next
    case False
    with assms(1) i r have s: "(st = st' \<and> a mod st \<noteq> lo mod st) \<or> (sg \<and> \<not> in_range a (lo, hi, st', tg))"
      by simp
    show ?thesis
    proof
      assume "in_range d r"
      with r have d: "lo \<le> d" "d \<le> hi" "(d - lo) mod st' = 0" by auto
      then have "d mod st' = lo mod st'" by (simp add: mod_shift_le)
      with s assms(2) i d show False by (auto split: if_splits)
    qed
  qed
qed

lemma block_ok_sound: "block_ok i rs \<Longrightarrow> r \<in> set rs \<Longrightarrow> pair_ok i r"
  by (induction rs) auto

lemma box_acc_bounds:
  "box_acc l h rs = (L, H) \<Longrightarrow>
     L \<le> l \<and> h \<le> H \<and> (\<forall>r \<in> set rs. L \<le> fst r \<and> fst (snd r) \<le> H)"
proof (induction l h rs rule: box_acc.induct)
  case (1 l h)
  then show ?case by simp
next
  case (2 l h lo hi st tg rs)
  then show ?case by (auto simp: min_def max_def split: if_splits)
qed

lemma block_box_bounds:
  assumes "r \<in> set blk"
  shows "fst (block_box blk) \<le> fst r \<and> fst (snd r) \<le> snd (block_box blk)"
proof (cases blk)
  case Nil
  with assms show ?thesis by simp
next
  case (Cons x rs)
  obtain lo hi st tg where x: "x = (lo, hi, st, tg)" by (cases x) auto
  obtain L H where b: "box_acc lo hi rs = (L, H)" by (cases "box_acc lo hi rs") auto
  from box_acc_bounds [OF b] assms Cons x b show ?thesis by auto
qed

lemma boxed_ok_sound:
  assumes "blocks_ok i (boxes bls)" and "blk \<in> set bls" and "r \<in> set blk" and "in_image d i"
  shows "\<not> in_range d r"
  using assms
proof (induction bls)
  case Nil
  then show ?case by simp
next
  case (Cons x bls)
  obtain a b st sg where i: "i = (a, b, st, sg)" by (cases i) auto
  obtain l h where bx: "block_box x = (l, h)" by (cases "block_box x") auto
  from Cons.prems(1) i bx have
    here: "boxed_ok (b < l \<or> h < a) (a, b, st, sg) x" and rest: "blocks_ok i (boxes bls)"
    by simp_all
  show ?case
  proof (cases "blk = x")
    case False
    with Cons rest show ?thesis by simp
  next
    case True
    show ?thesis
    proof (cases "b < l \<or> h < a")
      case out: True
      from block_box_bounds [of r x] Cons.prems(3) True bx
      have "l \<le> fst r" "fst (snd r) \<le> h" by simp_all
      with out Cons.prems(4) i show ?thesis by (cases r) auto
    next
      case False
      with here have "block_ok i x" by (simp add: i)
      with Cons.prems(3) True have "pair_ok i r" by (simp add: block_ok_sound)
      then show ?thesis using Cons.prems(4) by (rule pair_ok_sound)
    qed
  qed
qed

lemma concat_chunks: "concat (chunks xs) = xs"
  by (induction xs rule: chunks.induct) simp_all

lemma images_ok_member: "images_ok is bs \<Longrightarrow> i \<in> set is \<Longrightarrow> blocks_ok i bs"
  by (induction "is") auto

lemma images_ok_sound:
  assumes "images_ok is (boxes (chunks ds @ chunks ds'))"
    and "i \<in> set is" and "in_image d i" and "r \<in> set ds \<union> set ds'"
  shows "\<not> in_range d r"
proof -
  from assms(1,2) have b: "blocks_ok i (boxes (chunks ds @ chunks ds'))"
    by (rule images_ok_member)
  from assms(4) have "r \<in> set (concat (chunks ds)) \<union> set (concat (chunks ds'))"
    by (simp add: concat_chunks)
  then obtain blk where blk: "blk \<in> set (chunks ds @ chunks ds')" "r \<in> set blk" by auto
  from b blk assms(3) show ?thesis by (rule boxed_ok_sound)
qed

lemma range_lookup_NoneI: "(\<forall>r \<in> set rs. \<not> in_range c r) \<Longrightarrow> range_lookup rs c = None"
  by (induction rs) auto

lemma special_keys_member: "map_of sp d = Some v \<Longrightarrow> (d, d, 1, d) \<in> set (special_keys sp)"
  by (force simp: special_keys_def dest: map_of_SomeD)

lemma value_images_member:
  "map_of sp c = Some v \<Longrightarrow> d \<in> set v \<Longrightarrow> (d, d, 1, True) \<in> set (value_images sp)"
  by (force simp: value_images_def dest: map_of_SomeD)

lemma image_unmapped:
  assumes "images_ok (map img_of rs @ value_images sp) (boxes (chunks rs @ chunks (special_keys sp)))"
    and "i \<in> set (map img_of rs @ value_images sp)" and "in_image d i"
  shows "range_lookup rs d = None \<and> map_of sp d = None"
proof -
  have no: "\<not> in_range d r" if "r \<in> set rs \<union> set (special_keys sp)" for r
    using assms that by (rule images_ok_sound)
  then have "range_lookup rs d = None" by (simp add: range_lookup_NoneI)
  moreover have "map_of sp d = None"
  proof (cases "map_of sp d")
    case (Some v)
    then have "(d, d, 1, d) \<in> set (special_keys sp)" by (rule special_keys_member)
    with no [of "(d, d, 1, d)"] show ?thesis by simp
  qed simp
  ultimately show ?thesis by simp
qed

text \<open>
  Every code point of the mapping of a character is mapped to itself, for a table that
  passes the check.
\<close>

lemma mapping_fixed:
  assumes ok: "images_ok (map img_of rs @ value_images sp) (boxes (chunks rs @ chunks (special_keys sp)))"
    and d: "d \<in> set (case map_of sp c of Some s \<Rightarrow> s
                     | None \<Rightarrow> (case range_lookup rs c of Some e \<Rightarrow> [e] | None \<Rightarrow> [c]))"
  shows "(case map_of sp d of Some s \<Rightarrow> s
          | None \<Rightarrow> (case range_lookup rs d of Some e \<Rightarrow> [e] | None \<Rightarrow> [d])) = [d]"
proof (cases "map_of sp c")
  case (Some v)
  with d have "d \<in> set v" by simp
  with Some have "(d, d, 1, True) \<in> set (value_images sp)" by (rule value_images_member)
  then have "(d, d, 1, True) \<in> set (map img_of rs @ value_images sp)" by simp
  from image_unmapped [OF ok this in_image_value] show ?thesis by simp
next
  case None
  show ?thesis
  proof (cases "range_lookup rs c")
    case n: None
    with None d show ?thesis by simp
  next
    case (Some e)
    with None d have e: "d = e" by simp
    from Some obtain r where r: "r \<in> set rs" "in_range c r" "e = range_image c r"
      by (blast dest: range_lookup_SomeD)
    from r(1) have "img_of r \<in> set (map img_of rs @ value_images sp)" by simp
    moreover from r(2,3) e have "in_image d (img_of r)" by (simp add: in_image_img_of)
    ultimately show ?thesis using image_unmapped [OF ok] by simp
  qed
qed

subsection \<open>The two tables pass the check\<close>

lemma lower_images_ok:
  "images_ok (map img_of lower_ranges @ value_images lower_special)
     (boxes (chunks lower_ranges @ chunks (special_keys lower_special)))"
  by (simp add: lower_ranges_def lower_special_def special_keys_def value_images_def)

lemma upper_images_ok:
  "images_ok (map img_of upper_ranges @ value_images upper_special)
     (boxes (chunks upper_ranges @ chunks (special_keys upper_special)))"
  by (simp add: upper_ranges_def upper_special_def special_keys_def value_images_def)

lemma to_lower_full_fixed: "d \<in> set (to_lower_full c) \<Longrightarrow> to_lower_full d = [d]"
  unfolding to_lower_full_def by (rule mapping_fixed [OF lower_images_ok])

lemma to_upper_full_fixed: "d \<in> set (to_upper_full c) \<Longrightarrow> to_upper_full d = [d]"
  unfolding to_upper_full_def by (rule mapping_fixed [OF upper_images_ok])

lemma to_lower_full_sigma: "to_lower_full 931 = [963]"
  by (simp add: to_lower_full_def lower_special_def lower_ranges_def)

lemma str_lower_single: "str_lower cased ignorable [c] = ch_lower c"
  by (simp add: str_lower_def ch_lower_def to_lower_full_sigma)

lemma lower_from_fixed:
  "(\<forall>d \<in> set s. d \<noteq> 931 \<and> to_lower_full d = [d]) \<Longrightarrow> lower_from cased ignorable before s = s"
  by (induction s arbitrary: before) simp_all

lemma concat_map_fixed: "(\<forall>d \<in> set s. f d = [d]) \<Longrightarrow> concat (map f s) = s"
  by (induction s) simp_all

section \<open>Applying a case mapping twice\<close>

text \<open>
  C7. The case mappings are idempotent: for every character \<open>c\<close>, the lower-case mapping of
  the string \<^verbatim>\<open>c.lower()\<close> is that string again, and the upper-case mapping of the string
  \<^verbatim>\<open>c.upper()\<close> is that string again (whatever the cased and case-ignorable characters of
  the interpreter are).
\<close>

theorem case_mapping_idempotent:
  "str_lower cased ignorable (ch_lower c) = ch_lower c \<and> str_upper (ch_upper c) = ch_upper c"
proof
  have "d \<noteq> 931 \<and> to_lower_full d = [d]" if "d \<in> set (to_lower_full c)" for d
  proof -
    from that have "to_lower_full d = [d]" by (rule to_lower_full_fixed)
    with to_lower_full_sigma show ?thesis by auto
  qed
  then show "str_lower cased ignorable (ch_lower c) = ch_lower c"
    by (simp add: str_lower_def ch_lower_def lower_from_fixed)
next
  show "str_upper (ch_upper c) = ch_upper c"
    by (simp add: str_upper_def ch_upper_def concat_map_fixed to_upper_full_fixed)
qed

section \<open>What the standard output must encode\<close>

lemma image_below_sound: "in_range c r \<Longrightarrow> image_below n r \<Longrightarrow> range_image c r < n"
  by (cases r) auto

lemma range_lookup_below:
  assumes "range_lookup rs c = Some d" and "list_all (image_below n) rs"
  shows "d < n"
proof -
  from assms(1) obtain r where r: "r \<in> set rs" "in_range c r" "d = range_image c r"
    by (blast dest: range_lookup_SomeD)
  from assms(2) r(1) have "image_below n r" by (simp add: list_all_iff)
  with r(2,3) show ?thesis by (simp add: image_below_sound)
qed

lemma lower_ranges_images_utf8:
  "list_all (image_outside 55296 57343) lower_ranges \<and> list_all (image_below 1114112) lower_ranges"
  by (simp add: lower_ranges_def)

lemma upper_ranges_images_utf8:
  "list_all (image_outside 55296 57343) upper_ranges \<and> list_all (image_below 1114112) upper_ranges"
  by (simp add: upper_ranges_def)

lemma lower_special_utf8: "list_all (\<lambda>p. list_all utf8_strict (snd p)) lower_special"
  by (simp add: lower_special_def utf8_strict_def)

lemma upper_special_utf8: "list_all (\<lambda>p. list_all utf8_strict (snd p)) upper_special"
  by (simp add: upper_special_def utf8_strict_def)

lemma lower_ranges_keys_utf8:
  "list_all (\<lambda>r. fst (snd r) < 55296 \<or> (57343 < fst r \<and> fst (snd r) < 1114112)) lower_ranges"
  by (simp add: lower_ranges_def)

lemma ch_lower_utf8:
  assumes "utf8_strict c"
  shows "list_all utf8_strict (ch_lower c)"
proof (cases "map_of lower_special c")
  case (Some v)
  from map_of_list_all [OF Some lower_special_utf8] Some
  show ?thesis by (simp add: ch_lower_def to_lower_full_def)
next
  case None
  show ?thesis
  proof (cases "range_lookup lower_ranges c")
    case n: None
    with None assms show ?thesis by (simp add: ch_lower_def to_lower_full_def)
  next
    case (Some d)
    from lower_ranges_images_utf8 Some have "d < 55296 \<or> 57343 < d" "d < 1114112"
      by (blast dest: range_lookup_outside, blast dest: range_lookup_below)
    with None Some show ?thesis by (simp add: ch_lower_def to_lower_full_def utf8_strict_def)
  qed
qed

lemma ch_upper_utf8:
  assumes "utf8_strict c"
  shows "list_all utf8_strict (ch_upper c)"
proof (cases "map_of upper_special c")
  case (Some v)
  from map_of_list_all [OF Some upper_special_utf8] Some
  show ?thesis by (simp add: ch_upper_def to_upper_full_def)
next
  case None
  show ?thesis
  proof (cases "range_lookup upper_ranges c")
    case n: None
    with None assms show ?thesis by (simp add: ch_upper_def to_upper_full_def)
  next
    case (Some d)
    from upper_ranges_images_utf8 Some have "d < 55296 \<or> 57343 < d" "d < 1114112"
      by (blast dest: range_lookup_outside, blast dest: range_lookup_below)
    with None Some show ?thesis by (simp add: ch_upper_def to_upper_full_def utf8_strict_def)
  qed
qed

text \<open>A character that UTF-8 cannot encode has no case mapping: it stays in the output.\<close>

lemma ch_lower_not_utf8:
  assumes "\<not> utf8_strict c"
  shows "ch_lower c = [c]"
proof -
  from assms have c: "55296 \<le> c" "c \<le> 57343 \<or> 1114112 \<le> c"
    by (auto simp: utf8_strict_def)
  have "\<not> in_range c r" if "r \<in> set lower_ranges" for r
  proof -
    from lower_ranges_keys_utf8 that
    have "fst (snd r) < 55296 \<or> (57343 < fst r \<and> fst (snd r) < 1114112)"
      by (simp add: list_all_iff)
    with c show ?thesis by (auto simp: in_range_unfold)
  qed
  then have "range_lookup lower_ranges c = None" by (simp add: range_lookup_NoneI)
  moreover from c(1) have "map_of lower_special c = None" by (simp add: lower_special_def)
  ultimately show ?thesis by (simp add: ch_lower_def to_lower_full_def)
qed

lemma transform_utf8: "list_all utf8_strict (transform kw) = list_all utf8_strict kw"
proof (induction kw)
  case Nil
  show ?case by (simp add: transform_Nil)
next
  case (Cons c kw)
  have b: "utf8_strict 91" "utf8_strict 93" by (simp_all add: utf8_strict_def)
  show ?case
  proof (cases "utf8_strict c")
    case True
    with Cons b show ?thesis by (simp add: transform_Cons ch_lower_utf8 ch_upper_utf8)
  next
    case False
    then show ?thesis by (simp add: transform_Cons ch_lower_not_utf8)
  qed
qed

text \<open>
  C3, as amended. With an argument supplied, the run ends in one of two ways: it writes the
  transformed keyword and a newline and the exit status is 0, or \<^verbatim>\<open>print\<close> raises
  \<^verbatim>\<open>UnicodeEncodeError\<close>; the error is raised exactly when the standard output cannot
  encode a character of the transformed keyword. With a strict UTF-8 standard output the
  run succeeds exactly for the keywords that have no surrogate character, among them the
  empty keyword and the keywords of non-alphabetic and non-ASCII characters.
\<close>

theorem main_error_paths:
  "2 \<le> length argv \<Longrightarrow>
     (main enc argv = Inr (transform (argv ! 1) @ [10]) \<or> main enc argv = Inl UnicodeEncodeError) \<and>
     (main enc argv = Inl UnicodeEncodeError) = (\<not> list_all enc (transform (argv ! 1))) \<and>
     (main utf8_strict argv = Inr (transform (argv ! 1) @ [10])) = list_all utf8_strict (argv ! 1) \<and>
     (exit_status (main utf8_strict argv) = 0) = list_all utf8_strict (argv ! 1)"
  by (simp add: main_def py_print_def transform_utf8)

theorem main_error_paths_witness:
  "main utf8_strict [[107, 119], [223, 33, 931]] = Inr (transform [223, 33, 931] @ [10]) \<and>
   exit_status (main utf8_strict [[107, 119], [223, 33, 931]]) = 0"
  using main_error_paths [of "[[107, 119], [223, 33, 931]]" utf8_strict]
  by (simp add: utf8_strict_def)

text \<open>
  C3 as stated fails where the standard output cannot encode the output: with a strict
  UTF-8 standard output and the keyword made of the surrogate U+DCFF (56575), and with a
  strict ASCII standard output and the keyword made of U+00DF (223), \<^verbatim>\<open>print\<close> raises
  \<^verbatim>\<open>UnicodeEncodeError\<close> and the exit status is 1.
\<close>

theorem main_encode_error_counterexample:
  "main utf8_strict [[107, 119], [56575]] = Inl UnicodeEncodeError \<and>
   exit_status (main utf8_strict [[107, 119], [56575]]) = 1 \<and>
   main ascii_strict [[107, 119], [223]] = Inl UnicodeEncodeError \<and>
   exit_status (main ascii_strict [[107, 119], [223]]) = 1"
proof -
  have "main utf8_strict [[107, 119], [56575]] = Inl UnicodeEncodeError"
    by (simp add: main_def py_print_def transform_utf8) (simp add: utf8_strict_def)
  moreover have "transform [223] = [91, 223, 83, 83, 93]"
    by (simp add: transform_Cons transform_Nil ch_lower_def ch_upper_def to_lower_full_def
        to_upper_full_def lower_special_def upper_special_def lower_ranges_def)
  then have "main ascii_strict [[107, 119], [223]] = Inl UnicodeEncodeError"
    by (simp add: main_def py_print_def ascii_strict_def)
  ultimately show ?thesis by simp
qed

section \<open>Characters without case\<close>










end
